theory Spec2Isabelle
  imports Main "HOL-Library.Word"
begin

section \<open>Data model of the tokenizer (mod.ts)\<close>

text \<open>
  A JavaScript string is a sequence of UTF-16 code units. \<open>charCodeAt\<close> reads a code
  unit as a number (\<open>unat\<close>), \<open>String.fromCharCode\<close> turns a number into a string of
  one code unit, truncating it to 16 bits. Numbers that the tokenizer handles (character
  codes, counters of dashes and brackets) are natural numbers.
\<close>

type_synonym jsstring = "16 word list"

definition charCodeAt0 :: "16 word \<Rightarrow> nat" where
  "charCodeAt0 u = unat u"

definition fromCharCode :: "nat \<Rightarrow> jsstring" where
  "fromCharCode c = [word_of_nat c]"

text \<open>A string literal of the source with ASCII characters only.\<close>

definition js :: "string \<Rightarrow> jsstring" where
  "js s = map (\<lambda>ch. word_of_nat (of_char ch)) s"

text \<open>
  \<open>String.fromCodePoint(cp)\<close> for a code point up to 0x10FFFF: a code point from 0x10000
  on is a pair of surrogate code units, as in every string of the language.
\<close>

definition fromCodePoint :: "nat \<Rightarrow> jsstring" where
  "fromCodePoint cp =
     (if cp < 0x10000 then [word_of_nat cp]
      else [word_of_nat (0xD800 + (cp - 0x10000) div 0x400),
            word_of_nat (0xDC00 + (cp - 0x10000) mod 0x400)])"

text \<open>\<open>s.repeat(n)\<close>\<close>

definition repeat_str :: "jsstring \<Rightarrow> nat \<Rightarrow> jsstring" where
  "repeat_str s n = concat (replicate n s)"

text \<open>\<open>s.startsWith(p)\<close>\<close>

fun startsWith :: "jsstring \<Rightarrow> jsstring \<Rightarrow> bool" where
  "startsWith s [] = True"
| "startsWith [] (u # p) = False"
| "startsWith (v # s) (u # p) = (v = u \<and> startsWith s p)"

text \<open>
  \<open>s.toLowerCase()\<close>, on the letters A to Z. The source only compares the result with
  the literal \<open>xml\<close>, and no character outside A to Z has x, m or l as its lower case.
\<close>

definition toLowerCase :: "jsstring \<Rightarrow> jsstring" where
  "toLowerCase s = map (\<lambda>u. if 65 \<le> unat u \<and> unat u \<le> 90 then u + 32 else u) s"

type_synonym Attributes = "jsstring \<rightharpoonup> jsstring"

record Tag =
  name :: jsstring
  empty :: bool
  attributes :: Attributes

record ProcessingInstruction =
  pi_name :: jsstring
  pi_text :: jsstring

datatype Node =
    TextNode jsstring
  | XMLDeclNode Attributes
  | OpenTagNode Tag
  | CloseTagNode jsstring
  | CommentNode jsstring
  | ProcessingInstructionNode ProcessingInstruction
  | CDataNode jsstring

text \<open>The enum \<open>Tokens\<close>.\<close>

abbreviation TagOpen :: nat where "TagOpen \<equiv> 60"
abbreviation TagClose :: nat where "TagClose \<equiv> 62"
abbreviation Equals :: nat where "Equals \<equiv> 61"
abbreviation Dash :: nat where "Dash \<equiv> 45"
abbreviation DoubleQuote :: nat where "DoubleQuote \<equiv> 34"
abbreviation SingleQuote :: nat where "SingleQuote \<equiv> 39"
abbreviation Slash :: nat where "Slash \<equiv> 47"
abbreviation BackSlash :: nat where "BackSlash \<equiv> 92"
abbreviation QuestionMark :: nat where "QuestionMark \<equiv> 63"
abbreviation ExclamationMark :: nat where "ExclamationMark \<equiv> 33"
abbreviation LeftSquareBracket :: nat where "LeftSquareBracket \<equiv> 91"
abbreviation RightSquareBracket :: nat where "RightSquareBracket \<equiv> 93"

text \<open>
  The tagged union \<open>ParseState\<close>; the fields of each variant in the order of its
  interface. The optional field \<open>quotationMark\<close> is an option.
\<close>

datatype ParseState =
    Text jsstring
  | TagName jsstring
  | TagEmpty jsstring Attributes
  | Tag jsstring Attributes
  | TagAttributeName jsstring Attributes jsstring
  | TagAttribute jsstring Attributes jsstring
  | TagAttributeValue jsstring Attributes jsstring jsstring bool "nat option"
  | ClosingTagName jsstring
  | ProcessingInstructionName jsstring
  | ProcessingInstruction jsstring jsstring bool
  | XMLDecl Attributes
  | XMLDeclAttributeName Attributes jsstring
  | XMLDeclAttribute Attributes jsstring jsstring
  | XMLDeclAttributeValue Attributes jsstring jsstring bool "nat option"
  | XMLDeclEnd Attributes
  | CommentStart nat
  | Comment nat jsstring
  | CDataStart jsstring
  | CData jsstring nat

text \<open>
  Every \<open>throw\<close> of the source, with the value its message is built from, and the
  \<open>RangeError\<close> of the engine for a call with too many arguments.
\<close>

datatype error =
    ParseIsClosed
  | RangeError
  | UnexpectedEscapeChar nat
  | InvalidTagNameStart nat
  | InvalidTagAttributeNameChar nat
  | InvalidAttributeValueStart nat
  | InvalidProcessingInstructionChar nat
  | InvalidXmlDeclChar nat
  | InvalidXmlDeclAttributeNameChar nat
  | InvalidCommentStart nat
  | MalformedCommentEnding nat
  | InvalidCommentChar nat
  | InvalidCDataStart jsstring
  | InvalidCDataChar nat
  | UnexpectedEndOfStream

section \<open>Character classifiers\<close>

definition isNameStartChar :: "nat \<Rightarrow> bool" where
  "isNameStartChar char \<longleftrightarrow>
     char = 58 \<or>
     (char \<ge> 65 \<and> char \<le> 90) \<or>
     char = 95 \<or>
     (char \<ge> 97 \<and> char \<le> 122) \<or>
     (char \<ge> 0xc0 \<and> char \<le> 0xd6) \<or>
     (char \<ge> 0xd8 \<and> char \<le> 0xf6) \<or>
     (char \<ge> 0xf8 \<and> char \<le> 0x2ff) \<or>
     (char \<ge> 0x370 \<and> char \<le> 0x37d) \<or>
     (char \<ge> 0x37f \<and> char \<le> 0x1fff) \<or>
     (char \<ge> 0x200c \<and> char \<le> 0x200d) \<or>
     (char \<ge> 0x2070 \<and> char \<le> 0x218f) \<or>
     (char \<ge> 0x2c00 \<and> char \<le> 0x2fef) \<or>
     (char \<ge> 0x3001 \<and> char \<le> 0xd7ff) \<or>
     (char \<ge> 0xf900 \<and> char \<le> 0xfdcf) \<or>
     (char \<ge> 0xfdf0 \<and> char \<le> 0xfffd) \<or>
     (char \<ge> 0x10000 \<and> char \<le> 0xeffff)"

definition isNameChar :: "nat \<Rightarrow> bool" where
  "isNameChar char \<longleftrightarrow>
     isNameStartChar char \<or>
     char = 45 \<or>
     char = 46 \<or>
     (char \<ge> 48 \<and> char \<le> 57) \<or>
     char = 0xb7 \<or>
     (char \<ge> 0x300 \<and> char \<le> 0x36f) \<or>
     (char \<ge> 0x203f \<and> char \<le> 0x2040)"

definition isChar :: "nat \<Rightarrow> bool" where
  "isChar char \<longleftrightarrow>
     char = 9 \<or>
     char = 0xa \<or>
     char = 0xd \<or>
     (char \<ge> 0x20 \<and> char \<le> 0xd7ff) \<or>
     (char \<ge> 0xe000 \<and> char \<le> 0xfffd) \<or>
     (char \<ge> 0x10000 \<and> char \<le> 0x10ffff)"

definition isWhiteSpace :: "nat \<Rightarrow> bool" where
  "isWhiteSpace char \<longleftrightarrow> char = 0x20 \<or> char = 0x9 \<or> char = 0xd \<or> char = 0xa"

definition isQuotationMark :: "nat \<Rightarrow> bool" where
  "isQuotationMark char \<longleftrightarrow> char = DoubleQuote \<or> char = SingleQuote"

definition escapeChar :: "nat \<Rightarrow> error + jsstring" where
  "escapeChar char =
     (if char = 92 then Inr [92]
      else if char = 110 then Inr [10]
      else if char = 114 then Inr [13]
      else Inl (UnexpectedEscapeChar char))"

section \<open>The state machine\<close>

text \<open>
  Truthiness of the optional field \<open>quotationMark\<close>: \<open>undefined\<close> and \<open>0\<close> are falsy.
\<close>

definition truthy :: "nat option \<Rightarrow> bool" where
  "truthy q = (case q of None \<Rightarrow> False | Some n \<Rightarrow> n \<noteq> 0)"

text \<open>
  One pass through the body of the \<open>while\<close> loop of \<open>next\<close>: the \<open>switch\<close> on the
  current state for the code \<open>c\<close> taken from the queue, \<open>strict_mode\<close> being the
  field \<open>#strict\<close>. The result is the error thrown together with the state at that
  moment, or the new state together with the node returned, if this pass returns one.
\<close>

fun transition :: "bool \<Rightarrow> ParseState \<Rightarrow> nat \<Rightarrow>
     (error \<times> ParseState) + (Node option \<times> ParseState)" where
  "transition strict_mode (Text txt) c =
     (if c = TagOpen then
        (if length txt > 0 then Inr (Some (TextNode txt), TagName [])
         else Inr (None, TagName []))
      else Inr (None, Text (txt @ fromCharCode c)))"
| "transition strict_mode (TagName tagName) c =
     (if length tagName \<noteq> 0 then
        (if isNameChar c then Inr (None, TagName (tagName @ fromCharCode c))
         else if isWhiteSpace c then Inr (None, Tag tagName Map.empty)
         else if c = TagClose then
           Inr (Some (OpenTagNode \<lparr>name = tagName, empty = False, attributes = Map.empty\<rparr>),
                Text [])
         else if c = Slash then Inr (None, TagEmpty tagName Map.empty)
         else Inr (None, TagName tagName))
      else
        (if isNameStartChar c then Inr (None, TagName (tagName @ fromCharCode c))
         else if c = Slash then Inr (None, ClosingTagName [])
         else if c = QuestionMark then Inr (None, ProcessingInstructionName [])
         else if c = ExclamationMark then Inr (None, CommentStart 0)
         else Inl (InvalidTagNameStart c, TagName tagName)))"
| "transition strict_mode (Tag tagName attrs) c =
     (if c = TagClose then
        Inr (Some (OpenTagNode \<lparr>name = tagName, empty = False, attributes = attrs\<rparr>), Text [])
      else if isWhiteSpace c then Inr (None, Tag tagName attrs)
      else if isNameStartChar c then
        Inr (None, TagAttributeName tagName attrs (fromCharCode c))
      else if c = Slash then Inr (None, TagEmpty tagName Map.empty)
      else Inl (InvalidTagAttributeNameChar c, Tag tagName attrs))"
| "transition strict_mode (TagEmpty tagName attrs) c =
     (if c = TagClose then
        Inr (Some (OpenTagNode \<lparr>name = tagName, empty = True, attributes = attrs\<rparr>), Text [])
      else Inr (None, TagEmpty tagName attrs))"
| "transition strict_mode (TagAttribute tagName attrs attributeName) c =
     (if isWhiteSpace c then Inr (None, TagAttribute tagName attrs attributeName)
      else if c = Equals then
        Inr (None, TagAttributeValue tagName attrs attributeName [] False None)
      else Inr (None, TagAttribute tagName attrs attributeName))"
| "transition strict_mode (TagAttributeName tagName attrs attributeName) c =
     (if isWhiteSpace c then Inr (None, TagAttribute tagName attrs attributeName)
      else if c = Equals then
        Inr (None, TagAttributeValue tagName attrs attributeName [] False None)
      else if isNameChar c then
        Inr (None, TagAttributeName tagName attrs (attributeName @ fromCharCode c))
      else Inl (InvalidTagAttributeNameChar c, TagAttributeName tagName attrs attributeName))"
| "transition strict_mode
     (TagAttributeValue tagName attrs attributeName attributeValue escaped quotationMark) c =
     (if length attributeValue \<noteq> 0 \<or> truthy quotationMark then
        (if escaped then
           (case escapeChar c of
              Inl e \<Rightarrow>
                Inl (e, TagAttributeValue tagName attrs attributeName attributeValue
                       escaped quotationMark)
            | Inr s \<Rightarrow>
                Inr (None, TagAttributeValue tagName attrs attributeName (attributeValue @ s)
                       False quotationMark))
         else if c = BackSlash \<and> truthy quotationMark then
           Inr (None, TagAttributeValue tagName attrs attributeName attributeValue
                  True quotationMark)
         else if (if truthy quotationMark then Some c = quotationMark else isWhiteSpace c) then
           Inr (None, Tag tagName (attrs(attributeName \<mapsto> attributeValue)))
         else
           Inr (None, TagAttributeValue tagName attrs attributeName
                  (attributeValue @ fromCharCode c) escaped quotationMark))
      else
        (if isWhiteSpace c then
           Inr (None, TagAttributeValue tagName attrs attributeName attributeValue
                  escaped quotationMark)
         else if (if strict_mode then c = SingleQuote else isQuotationMark c) then
           Inr (None, TagAttributeValue tagName attrs attributeName attributeValue
                  escaped (Some c))
         else if strict_mode then
           Inl (InvalidAttributeValueStart c,
                TagAttributeValue tagName attrs attributeName attributeValue escaped quotationMark)
         else
           Inr (None, TagAttributeValue tagName attrs attributeName
                  (attributeValue @ fromCharCode c) escaped quotationMark)))"
| "transition strict_mode (ClosingTagName tagName) c =
     (if length tagName \<noteq> 0 then
        (if isNameChar c then Inr (None, ClosingTagName (tagName @ fromCharCode c))
         else if isWhiteSpace c then Inr (None, ClosingTagName tagName)
         else if c = TagClose then Inr (Some (CloseTagNode tagName), Text [])
         else Inr (None, ClosingTagName tagName))
      else
        (if isNameStartChar c then Inr (None, ClosingTagName (tagName @ fromCharCode c))
         else Inl (InvalidTagNameStart c, ClosingTagName tagName)))"
| "transition strict_mode (ProcessingInstructionName nm) c =
     (if isWhiteSpace c then
        (if toLowerCase nm = js ''xml'' then Inr (None, XMLDecl Map.empty)
         else Inr (None, ProcessingInstruction nm [] False))
      else Inr (None, ProcessingInstructionName (nm @ fromCharCode c)))"
| "transition strict_mode (ProcessingInstruction nm txt ending) c =
     (if c = QuestionMark then
        (if ending then Inr (None, ProcessingInstruction nm (txt @ js ''?'') ending)
         else Inr (None, ProcessingInstruction nm txt True))
      else if ending \<and> c = TagClose then
        Inr (Some (ProcessingInstructionNode \<lparr>pi_name = nm, pi_text = txt\<rparr>), Text [])
      else if strict_mode \<and> \<not> isChar c then
        Inl (InvalidProcessingInstructionChar c, ProcessingInstruction nm txt ending)
      else
        Inr (None, ProcessingInstruction nm
               ((if ending then txt @ js ''?'' else txt) @ fromCharCode c) False))"
| "transition strict_mode (XMLDecl attrs) c =
     (if isWhiteSpace c then Inr (None, XMLDecl attrs)
      else if c = QuestionMark then Inr (None, XMLDeclEnd attrs)
      else if isNameStartChar c then
        Inr (None, XMLDeclAttributeName attrs (fromCharCode c))
      else Inl (InvalidXmlDeclChar c, XMLDecl attrs))"
| "transition strict_mode (XMLDeclAttributeName attrs attributeName) c =
     (if isWhiteSpace c then Inr (None, XMLDeclAttribute attrs attributeName [])
      else if c = Equals then
        Inr (None, XMLDeclAttributeValue attrs attributeName [] False None)
      else if isNameChar c then
        Inr (None, XMLDeclAttributeName attrs (attributeName @ fromCharCode c))
      else Inl (InvalidXmlDeclAttributeNameChar c, XMLDeclAttributeName attrs attributeName))"
| "transition strict_mode (XMLDeclAttribute attrs attributeName attributeValue) c =
     (if isWhiteSpace c then Inr (None, XMLDeclAttribute attrs attributeName attributeValue)
      else if c = Equals then
        Inr (None, XMLDeclAttributeValue attrs attributeName [] False None)
      else Inr (None, XMLDeclAttribute attrs attributeName attributeValue))"
| "transition strict_mode
     (XMLDeclAttributeValue attrs attributeName attributeValue escaped quotationMark) c =
     (if length attributeValue \<noteq> 0 \<or> truthy quotationMark then
        (if escaped then
           (case escapeChar c of
              Inl e \<Rightarrow>
                Inl (e, XMLDeclAttributeValue attrs attributeName attributeValue
                       escaped quotationMark)
            | Inr s \<Rightarrow>
                Inr (None, XMLDeclAttributeValue attrs attributeName (attributeValue @ s)
                       False quotationMark))
         else if c = BackSlash \<and> truthy quotationMark then
           Inr (None, XMLDeclAttributeValue attrs attributeName attributeValue
                  True quotationMark)
         else if (if truthy quotationMark then Some c = quotationMark else isWhiteSpace c) then
           Inr (None, XMLDecl (attrs(attributeName \<mapsto> attributeValue)))
         else
           Inr (None, XMLDeclAttributeValue attrs attributeName
                  (attributeValue @ fromCharCode c) escaped quotationMark))
      else
        (if isWhiteSpace c then
           Inr (None, XMLDeclAttributeValue attrs attributeName attributeValue
                  escaped quotationMark)
         else if (if strict_mode then c = SingleQuote else isQuotationMark c) then
           Inr (None, XMLDeclAttributeValue attrs attributeName attributeValue
                  escaped (Some c))
         else if strict_mode then
           Inl (InvalidAttributeValueStart c,
                XMLDeclAttributeValue attrs attributeName attributeValue escaped quotationMark)
         else
           Inr (None, XMLDeclAttributeValue attrs attributeName
                  (attributeValue @ fromCharCode c) escaped quotationMark)))"
| "transition strict_mode (XMLDeclEnd attrs) c =
     (if c = TagClose then Inr (Some (XMLDeclNode attrs), Text [])
      else Inr (None, XMLDeclEnd attrs))"
| "transition strict_mode (CommentStart dashes) c =
     (if dashes = 0 \<and> c = LeftSquareBracket then Inr (None, CDataStart [])
      else if c = Dash then
        (if dashes + 1 \<ge> 2 then Inr (None, Comment 0 [])
         else Inr (None, CommentStart (dashes + 1)))
      else Inl (InvalidCommentStart c, CommentStart dashes))"
| "transition strict_mode (Comment dashes txt) c =
     (if c = Dash then
        (if strict_mode \<and> length txt = 0 then Inl (InvalidCommentStart c, Comment dashes txt)
         else Inr (None, Comment (dashes + 1) txt))
      else if c = TagClose \<and> dashes \<ge> 2 then
        (if strict_mode \<and> dashes > 2 then Inl (MalformedCommentEnding dashes, Comment dashes txt)
         else Inr (Some (CommentNode (txt @ repeat_str (js ''-'') (dashes - 2))), Text []))
      else if strict_mode \<and> c = Dash then Inl (InvalidCommentStart c, Comment dashes txt)
      else if strict_mode \<and> \<not> isChar c then Inl (InvalidCommentChar c, Comment dashes txt)
      else
        Inr (None, Comment 0
               ((if dashes \<noteq> 0 then txt @ repeat_str (js ''-'') dashes else txt)
                @ fromCharCode c)))"
| "transition strict_mode (CDataStart prologue) c =
     (if prologue @ fromCharCode c = js ''CDATA['' then Inr (None, CData [] 0)
      else if \<not> startsWith (js ''CDATA['') (prologue @ fromCharCode c) then
        Inl (InvalidCDataStart (prologue @ fromCharCode c), CDataStart (prologue @ fromCharCode c))
      else Inr (None, CDataStart (prologue @ fromCharCode c)))"
| "transition strict_mode (CData txt brackets) c =
     (if c = RightSquareBracket then Inr (None, CData txt (brackets + 1))
      else if brackets \<ge> 2 \<and> c = TagClose then
        Inr (Some (CDataNode (txt @ repeat_str (js '']'') (brackets - 2))), Text [])
      else if strict_mode \<and> \<not> isChar c then Inl (InvalidCDataChar c, CData txt brackets)
      else
        Inr (None, CData
               ((if brackets \<noteq> 0 then txt @ repeat_str (js '']'') brackets else txt)
                @ fromCharCode c) 0))"

section \<open>The pull protocol\<close>

text \<open>The private fields of the class \<open>Parser\<close>.\<close>

record Parser =
  state :: ParseState
  buffer :: "nat list"
  closed :: bool
  strict :: bool

text \<open>The constructor, given \<open>!!options.strict\<close>.\<close>

definition new_Parser :: "bool \<Rightarrow> Parser" where
  "new_Parser s = \<lparr>state = Text [], buffer = [], closed = False, strict = s\<rparr>"

text \<open>
  \<open>write\<close> appends with \<open>this.#buffer.push(...codes)\<close>: the spread passes one argument for
  each code unit of \<open>data\<close>, and an engine bounds the number of arguments of one call; beyond
  the bound the call throws a \<open>RangeError\<close> (maximum call stack size exceeded) before
  anything is appended. The bound belongs to the engine and its stack, not to the
  source; \<open>max_arguments\<close> stands for it, with a value of the order observed on Node with
  the default stack. The results below use the value only to compare it with the
  lengths of the strings written.
\<close>

definition max_arguments :: nat where
  "max_arguments = 125000"

definition Parser_write :: "Parser \<Rightarrow> jsstring \<Rightarrow> error + Parser" where
  "Parser_write p data =
     (if closed p then Inl ParseIsClosed
      else if length data > max_arguments then Inl RangeError
      else Inr (p\<lparr>buffer := buffer p @ map charCodeAt0 data\<rparr>))"

text \<open>\<open>close(data?)\<close>: the empty string is falsy, as \<open>undefined\<close> is.\<close>

definition Parser_close :: "Parser \<Rightarrow> jsstring option \<Rightarrow> error + Parser" where
  "Parser_close p data =
     (case data of
        None \<Rightarrow> Inr (p\<lparr>closed := True\<rparr>)
      | Some d \<Rightarrow>
          (if d \<noteq> [] then
             (case Parser_write p d of Inl e \<Rightarrow> Inl e | Inr p' \<Rightarrow> Inr (p'\<lparr>closed := True\<rparr>))
           else Inr (p\<lparr>closed := True\<rparr>)))"

text \<open>
  The \<open>while\<close> loop of \<open>next\<close>: it shifts one code after the other from the queue and
  leaves when a pass returns a node or throws. The result holds the state and the
  queue at that moment.
\<close>

fun next_loop :: "bool \<Rightarrow> ParseState \<Rightarrow> nat list \<Rightarrow>
    (error \<times> ParseState \<times> nat list) + (Node option \<times> ParseState \<times> nat list)" where
  "next_loop strict_mode st [] = Inr (None, st, [])"
| "next_loop strict_mode st (c # cs) =
     (case transition strict_mode st c of
        Inl (e, st') \<Rightarrow> Inl (e, st', cs)
      | Inr (Some node, st') \<Rightarrow> Inr (Some node, st', cs)
      | Inr (None, st') \<Rightarrow> next_loop strict_mode st' cs)"

text \<open>
  \<open>next()\<close>: \<open>Inr (Some node, p')\<close> is \<open>{value: node, done: false}\<close>, \<open>Inr (None, p')\<close> is
  \<open>{done: true}\<close>, and \<open>Inl (e, p')\<close> is a \<open>throw\<close> that leaves the instance as
  \<open>p'\<close>. The \<open>console.log\<close> before the last \<open>throw\<close> is left out.
\<close>

definition Parser_next :: "Parser \<Rightarrow> (error \<times> Parser) + (Node option \<times> Parser)" where
  "Parser_next p =
     (case next_loop (strict p) (state p) (buffer p) of
        Inl (e, st', buf') \<Rightarrow> Inl (e, p\<lparr>state := st', buffer := buf'\<rparr>)
      | Inr (Some node, st', buf') \<Rightarrow> Inr (Some node, p\<lparr>state := st', buffer := buf'\<rparr>)
      | Inr (None, st', buf') \<Rightarrow>
          (if closed p then
             (case st' of
                Text txt \<Rightarrow>
                  (if length txt > 0 then
                     Inr (Some (TextNode txt), p\<lparr>state := Text [], buffer := buf'\<rparr>)
                   else Inr (None, p\<lparr>state := st', buffer := buf'\<rparr>))
              | _ \<Rightarrow> Inl (UnexpectedEndOfStream, p\<lparr>state := st', buffer := buf'\<rparr>))
           else Inr (None, p\<lparr>state := st', buffer := buf'\<rparr>)))"

text \<open>
  A drain of the iterator (\<open>Array.from(p)\<close>, \<open>for (const node of p)\<close>) calls \<open>next\<close>
  until it answers \<open>done\<close> or throws. It ends: a call that returns a node has shifted
  at least one code from the queue, or has flushed the last text.
\<close>

lemma transition_emit_state:
  "transition sm st c = Inr (Some node, st') \<Longrightarrow> st' = Text [] \<or> st' = TagName []"
  by (cases st) (auto split: if_splits sum.splits)

lemma next_loop_emit:
  "next_loop sm st buf = Inr (Some node, st', buf') \<Longrightarrow>
     length buf' < length buf \<and> (st' = Text [] \<or> st' = TagName [])"
proof (induction buf arbitrary: st)
  case Nil
  then show ?case by simp
next
  case (Cons c cs)
  show ?case
  proof (cases "transition sm st c")
    case (Inl e)
    with Cons.prems show ?thesis by (simp split: prod.splits)
  next
    case (Inr r)
    obtain opt st1 where r: "r = (opt, st1)" by (cases r)
    show ?thesis
    proof (cases opt)
      case None
      with Cons.prems Inr r have "next_loop sm st1 cs = Inr (Some node, st', buf')" by simp
      from Cons.IH [OF this] show ?thesis by simp
    next
      case (Some n)
      with Cons.prems Inr r have "st' = st1" "buf' = cs" "n = node" by simp_all
      with transition_emit_state [of sm st c node st'] Inr r Some show ?thesis by simp
    qed
  qed
qed

lemma next_loop_done:
  "next_loop sm st buf = Inr (None, st', buf') \<Longrightarrow> buf' = []"
  by (induction buf arbitrary: st) (auto split: sum.splits option.splits prod.splits)

text \<open>What is left to a drain: the codes in the queue, and a text not yet flushed.\<close>

definition pending :: "Parser \<Rightarrow> nat" where
  "pending p =
     length (buffer p) +
     (case state p of Text t \<Rightarrow> (if t = [] then 0 else 1) | _ \<Rightarrow> 0)"

lemma pending_emitted:
  "st' = Text [] \<or> st' = TagName [] \<Longrightarrow> pending (p\<lparr>state := st', buffer := buf'\<rparr>) = length buf'"
  by (auto simp: pending_def)

lemma Parser_next_pending:
  assumes "Parser_next p = Inr (Some node, p')"
  shows "pending p' < pending p"
proof (cases "next_loop (strict p) (state p) (buffer p)")
  case (Inl e)
  with assms show ?thesis by (simp add: Parser_next_def split: prod.splits)
next
  case (Inr r)
  obtain opt st' buf' where r: "r = (opt, st', buf')" by (cases r)
  show ?thesis
  proof (cases opt)
    case (Some n)
    with Inr r assms have p': "p' = p\<lparr>state := st', buffer := buf'\<rparr>"
      by (simp add: Parser_next_def)
    from Inr r Some have "length buf' < length (buffer p) \<and> (st' = Text [] \<or> st' = TagName [])"
      by (simp add: next_loop_emit)
    then have "pending p' < length (buffer p)" by (simp add: p' pending_emitted)
    then show ?thesis by (simp add: pending_def)
  next
    case None
    with Inr r have loop: "next_loop (strict p) (state p) (buffer p) = Inr (None, st', buf')" by simp
    then have buf': "buf' = []" by (rule next_loop_done)
    from assms loop obtain t where st': "st' = Text t" and t: "t \<noteq> []"
      and p': "p' = p\<lparr>state := Text [], buffer := buf'\<rparr>"
      by (cases st'; cases "closed p") (simp_all add: Parser_next_def split: if_splits)
    have "pending p' = 0" by (simp add: p' buf' pending_emitted)
    moreover have "0 < pending p"
    proof (cases "buffer p")
      case Nil
      with loop st' have "state p = Text t" by simp
      with t show ?thesis by (simp add: pending_def)
    next
      case (Cons c cs)
      then show ?thesis by (simp add: pending_def)
    qed
    ultimately show ?thesis by simp
  qed
qed

text \<open>
  The nodes a drain yields, and how it ends: the instance after the answer \<open>done\<close>,
  or the error thrown and the instance it leaves.
\<close>

function drain :: "Parser \<Rightarrow> Node list \<times> ((error \<times> Parser) + Parser)" where
  "drain p =
     (case Parser_next p of
        Inl e \<Rightarrow> ([], Inl e)
      | Inr (None, p') \<Rightarrow> ([], Inr p')
      | Inr (Some node, p') \<Rightarrow> (case drain p' of (nodes, r) \<Rightarrow> (node # nodes, r)))"
  by pat_completeness auto
termination
proof (relation "measure pending")
  show "wf (measure pending)" by simp
next
  fix p x2 x y x2a
  assume "Parser_next p = Inr x2" "(x, y) = x2" "x = Some x2a"
  then have "Parser_next p = Inr (Some x2a, y)" by simp
  then show "(y, p) \<in> measure pending" by (simp add: Parser_next_pending)
qed

declare drain.simps [simp del]

text \<open>\<open>parse(str, options)\<close>: a new instance, one \<open>write\<close>, then \<open>close()\<close>.\<close>

definition parse :: "jsstring \<Rightarrow> bool \<Rightarrow> error + Parser" where
  "parse str s =
     (case Parser_write (new_Parser s) str of
        Inl e \<Rightarrow> Inl e
      | Inr p \<Rightarrow> Parser_close p None)"

text \<open>
  What a caller observes of a drain: the nodes in order and the error, if one was thrown.
\<close>

definition outcome :: "Node list \<times> ((error \<times> Parser) + Parser) \<Rightarrow> Node list \<times> error option" where
  "outcome r =
     (case r of
        (nodes, Inl (e, p)) \<Rightarrow> (nodes, Some e)
      | (nodes, Inr p) \<Rightarrow> (nodes, None))"

text \<open>\<open>parseString\<close> of test.ts: \<open>Array.from(parse(s))\<close>, here with the strict flag.\<close>

definition parseString :: "jsstring \<Rightarrow> bool \<Rightarrow> Node list \<times> error option" where
  "parseString str s =
     (case parse str s of
        Inl e \<Rightarrow> ([], Some e)
      | Inr p \<Rightarrow> outcome (drain p))"

section \<open>Input in chunks\<close>



text \<open>
  The loop of \<open>parseStream\<close>, on the chunks of text that the decoder hands over: each
  chunk is written and the instance is drained (\<open>yield* p\<close>) before the next one is read.
  A throw of \<open>write\<close> leaves the instance as it was.
\<close>

fun stream_chunks :: "Parser \<Rightarrow> jsstring list \<Rightarrow> Node list \<times> ((error \<times> Parser) + Parser)" where
  "stream_chunks p [] = ([], Inr p)"
| "stream_chunks p (chunk # chunks) =
     (case Parser_write p chunk of
        Inl e \<Rightarrow> ([], Inl (e, p))
      | Inr p1 \<Rightarrow>
          (case drain p1 of
             (nodes, Inl ep) \<Rightarrow> (nodes, Inl ep)
           | (nodes, Inr p2) \<Rightarrow>
               (case stream_chunks p2 chunks of (more_nodes, r) \<Rightarrow> (nodes @ more_nodes, r))))"

text \<open>\<open>parseStream\<close>: after the last chunk, \<open>close()\<close> and a last drain.\<close>

definition parseStream :: "jsstring list \<Rightarrow> bool \<Rightarrow> Node list \<times> error option" where
  "parseStream chunks s =
     (case stream_chunks (new_Parser s) chunks of
        (nodes, Inl (e, p)) \<Rightarrow> (nodes, Some e)
      | (nodes, Inr p) \<Rightarrow>
          (case Parser_close p None of
             Inl e \<Rightarrow> (nodes, Some e)
           | Inr p' \<Rightarrow> (case outcome (drain p') of (more_nodes, r) \<Rightarrow> (nodes @ more_nodes, r))))"



section \<open>Evaluation of the tokenizer on complete inputs\<close>

lemmas classifier_defs =
  isNameStartChar_def isNameChar_def isWhiteSpace_def isChar_def isQuotationMark_def
  fromCharCode_def truthy_def escapeChar_def js_def charCodeAt0_def repeat_str_def
  toLowerCase_def

lemma parse_instance:
  "parse str s =
     (if length str > max_arguments then Inl RangeError
      else Inr \<lparr>state = Text [], buffer = map charCodeAt0 str, closed = True, strict = s\<rparr>)"
  by (simp add: parse_def Parser_write_def Parser_close_def new_Parser_def)

lemmas parseString_eval =
  parseString_def parse_instance max_arguments_def outcome_def drain.simps Parser_next_def

lemma repeat_str_single: "repeat_str [u] n = replicate n u"
  by (induction n) (simp_all add: repeat_str_def)

text \<open>
  The tests of test.ts on strings of the basic plane, the scenario of an XML declaration
  and the advanced usage of the README (an input that arrives in two chunks), evaluated
  on the definitions above. (34 is the double quote.)
\<close>

lemma test_basic_xml:
  "parseString (js ''<root><child>hello</child></root>'') False =
     ([OpenTagNode \<lparr>name = js ''root'', empty = False, attributes = Map.empty\<rparr>,
       OpenTagNode \<lparr>name = js ''child'', empty = False, attributes = Map.empty\<rparr>,
       TextNode (js ''hello''),
       CloseTagNode (js ''child''),
       CloseTagNode (js ''root'')], None)"
  by (simp add: parseString_eval classifier_defs)

lemma test_comments:
  "parseString (js ''<!--hello--><child>hello<!-- </child></root>-->'') False =
     ([CommentNode (js ''hello''),
       OpenTagNode \<lparr>name = js ''child'', empty = False, attributes = Map.empty\<rparr>,
       TextNode (js ''hello''),
       CommentNode (js '' </child></root>'')], None)"
  by (simp add: parseString_eval classifier_defs)

lemma test_cdata:
  "parseString (js ''<root>hello<![CDATA[ world <('' @ [0xFFE3, 0xFE36, 0xFFE3] @ js '')>]]></root>'')
     False =
     ([OpenTagNode \<lparr>name = js ''root'', empty = False, attributes = Map.empty\<rparr>,
       TextNode (js ''hello''),
       CDataNode (js '' world <('' @ [0xFFE3, 0xFE36, 0xFFE3] @ js '')>''),
       CloseTagNode (js ''root'')], None)"
  by (simp add: parseString_eval classifier_defs)

lemma test_xml_declaration:
  "parseString (js ''<?xml version='' @ [34] @ js ''1.0'' @ [34] @ js '' encoding='' @ [34]
       @ js ''UTF-8'' @ [34] @ js ''?><a/>'') False =
     ([XMLDeclNode [js ''version'' \<mapsto> js ''1.0'', js ''encoding'' \<mapsto> js ''UTF-8''],
       OpenTagNode \<lparr>name = js ''a'', empty = True, attributes = Map.empty\<rparr>], None)"
  by (simp add: parseString_eval classifier_defs)

lemma readme_advanced_usage:
  "parseStream [js ''<hello>wor'', js ''ld</hello>asdf''] False =
     ([OpenTagNode \<lparr>name = js ''hello'', empty = False, attributes = Map.empty\<rparr>,
       TextNode (js ''world''),
       CloseTagNode (js ''hello''),
       TextNode (js ''asdf'')], None)"
  by (simp add: parseStream_def Parser_write_def max_arguments_def Parser_close_def
      new_Parser_def outcome_def drain.simps Parser_next_def classifier_defs)

section \<open>Attribute values without quotes\<close>

text \<open>
  C2. The specification: the complete input \<^verbatim>\<open><a b=unquoted>\<close> yields, with strict = false, the
  single node OpenTag a with the attributes {b: "unquoted"} and no error, and fails with
  strict = true on the invalid starting character of the attribute value.

  The code keeps the second half only. A value without quotes ends at white space and
  nowhere else, so the closing angle bracket is appended to the value: when the queue is
  empty the state is still TagAttributeValue, with the value \<^verbatim>\<open>unquoted>\<close>, no node has
  been returned, and the closed instance throws "unexpected end of stream".
\<close>

theorem unquoted_value_absorbs_tag_close:
  "parseString (js ''<a b=unquoted>'') False = ([], Some UnexpectedEndOfStream)
   \<and> next_loop False (Text []) (map charCodeAt0 (js ''<a b=unquoted>'')) =
       Inr (None,
            TagAttributeValue (js ''a'') Map.empty (js ''b'') (js ''unquoted>'') False None,
            [])
   \<and> parseString (js ''<a b=unquoted>'') True = ([], Some (InvalidAttributeValueStart 117))"
  by (simp add: parseString_eval classifier_defs)

section \<open>Self-closing tags\<close>

text \<open>
  C3. The specification: the OpenTag node of a self-closing tag, returned when TagEmpty sees the
  closing angle bracket, has empty = true and the attributes accumulated in the Tag
  state, for \<^verbatim>\<open><a b='c'/>\<close> the attributes {b: "c"}.

  The code returns empty = true, but the slash branch of the Tag state enters TagEmpty
  with a new empty attribute object, whatever had been accumulated: the node of
  \<^verbatim>\<open><a b='c'/>\<close> has no attribute. (39 is the code of the single quote.)
\<close>

theorem self_closing_tag_drops_attributes:
  "transition sm (Tag tagName attrs) Slash = Inr (None, TagEmpty tagName Map.empty)
   \<and> parseString (js ''<a b='' @ [39] @ js ''c'' @ [39] @ js ''/>'') sm =
       ([OpenTagNode \<lparr>name = js ''a'', empty = True, attributes = Map.empty\<rparr>], None)"
  by (cases sm) (simp_all add: parseString_eval classifier_defs)

section \<open>Comments\<close>

text \<open>
  C5. In the Comment state, a closing angle bracket that arrives with at least two pending
  dashes returns a Comment node whose body is the accumulated text followed by the
  pending dashes but two; in strict mode, with more than two pending dashes it throws
  the malformed comment ending instead, and a dash that arrives while the accumulated
  text is empty throws the invalid comment starting character. (45 is the dash.)
\<close>

theorem comment_closing:
  "(2 \<le> dashes \<and> \<not> (sm \<and> 2 < dashes) \<longrightarrow>
      transition sm (Comment dashes t) TagClose =
        Inr (Some (CommentNode (t @ replicate (dashes - 2) 45)), Text []))
   \<and> (2 < dashes \<longrightarrow>
      transition True (Comment dashes t) TagClose =
        Inl (MalformedCommentEnding dashes,
             Comment dashes t))
   \<and> transition True (Comment dashes []) Dash =
       Inl (InvalidCommentStart Dash, Comment dashes [])"
  by (auto simp: js_def repeat_str_single)

theorem comment_closing_witness:
  "transition False (Comment 3 (js ''a'')) 62 = Inr (Some (CommentNode (js ''a-'')), Text [])
   \<and> transition True (Comment 2 (js ''a'')) 62 = Inr (Some (CommentNode (js ''a'')), Text [])
   \<and> transition True (Comment 3 (js ''a'')) 62 =
       Inl (MalformedCommentEnding 3, Comment 3 (js ''a''))
   \<and> transition True (Comment 0 []) 45 = Inl (InvalidCommentStart 45, Comment 0 [])"
  using comment_closing [of 3 False "js ''a''"] comment_closing [of 2 True "js ''a''"]
    comment_closing [of 3 True "js ''a''"] comment_closing [of 0 True "[]"]
  by (simp add: js_def eval_nat_numeral)

text \<open>
  C6. The specification: the complete input \<^verbatim>\<open><!--a--b-->\<close> fails with strict = true, and with
  strict = false yields the single Comment node with the body \<^verbatim>\<open>a--b\<close>.

  The code yields that node in both modes. In strict mode a dash is refused only while
  the accumulated text is empty, and a closing with more than two dashes; the later
  branch of the Comment state that throws on a dash in strict mode is never reached,
  since the first branch takes every dash.
\<close>

theorem strict_comment_accepts_inner_dashes:
  "parseString (js ''<!--a--b-->'') True = ([CommentNode (js ''a--b'')], None)
   \<and> parseString (js ''<!--a--b-->'') False = ([CommentNode (js ''a--b'')], None)"
  by (simp add: parseString_eval classifier_defs)

section \<open>Tag names\<close>

text \<open>
  C7. The specification: while a tag name is accumulated (at least one character seen), a
  character that is no name character, no white space, no closing angle bracket and no
  slash fails with an invalid name character error.

  The code has no such branch in the TagName state: the character is dropped and the
  state stays as it is. So \<^verbatim>\<open><a$b>\<close> is the open tag \<^verbatim>\<open>ab\<close>.
\<close>

theorem tag_name_ignores_illegal_character:
  assumes "tagName \<noteq> []" and "\<not> isNameChar c" and "\<not> isWhiteSpace c"
    and "c \<noteq> TagClose" and "c \<noteq> Slash"
  shows "transition sm (TagName tagName) c = Inr (None, TagName tagName)"
  using assms by simp

theorem tag_name_ignores_illegal_character_witness:
  "transition False (TagName (js ''a'')) 36 = Inr (None, TagName (js ''a''))
   \<and> parseString (js ''<a$b>'') False =
       ([OpenTagNode \<lparr>name = js ''ab'', empty = False, attributes = Map.empty\<rparr>], None)"
proof -
  have "transition False (TagName (js ''a'')) 36 = Inr (None, TagName (js ''a''))"
    by (rule tag_name_ignores_illegal_character) (simp_all add: classifier_defs)
  moreover have "parseString (js ''<a$b>'') False =
       ([OpenTagNode \<lparr>name = js ''ab'', empty = False, attributes = Map.empty\<rparr>], None)"
    by (simp add: parseString_eval classifier_defs)
  ultimately show ?thesis by simp
qed

section \<open>Processing instructions\<close>

text \<open>
  C10. In the ProcessingInstructionName state every character that is not white space,
  the question mark and the closing angle bracket among them, is appended to the name.
  So the complete input \<^verbatim>\<open><?pi?>\<close> never reaches the state that collects the body and
  returns no node: the queue empties in the ProcessingInstructionName state with the
  name \<^verbatim>\<open>pi?>\<close>, and the closed instance throws "unexpected end of stream".
\<close>

theorem pi_name_absorbs_terminator:
  "(\<not> isWhiteSpace c \<longrightarrow>
      transition sm (ProcessingInstructionName nm) c =
        Inr (None, ProcessingInstructionName (nm @ fromCharCode c)))
   \<and> \<not> isWhiteSpace QuestionMark \<and> \<not> isWhiteSpace TagClose
   \<and> next_loop sm (Text []) (map charCodeAt0 (js ''<?pi?>'')) =
       Inr (None, ProcessingInstructionName (js ''pi?>''), [])
   \<and> parseString (js ''<?pi?>'') sm = ([], Some UnexpectedEndOfStream)"
  by (simp add: parseString_eval classifier_defs)

theorem pi_name_absorbs_terminator_witness:
  "\<not> isWhiteSpace 63
   \<and> transition True (ProcessingInstructionName (js ''pi'')) 63 =
       Inr (None, ProcessingInstructionName (js ''pi?''))
   \<and> parseString (js ''<?pi?>'') True = ([], Some UnexpectedEndOfStream)"
proof -
  have ws: "\<not> isWhiteSpace 63" by (simp add: isWhiteSpace_def)
  from pi_name_absorbs_terminator [of 63 True "js ''pi''"] ws
  show ?thesis by (simp add: classifier_defs)
qed

section \<open>The end of the queue\<close>

text \<open>
  C4. When a call of next empties the queue without returning a node from the loop: on a
  closed instance in the Text state with a non-empty accumulated text, it returns a last
  Text node with that text and resets the accumulator; on a closed instance in any
  other state, it throws "unexpected end of stream"; in every other case (the instance
  is not closed, or it is in the Text state with an empty accumulator) it answers done,
  without an error.
\<close>

theorem next_when_queue_empties:
  assumes "next_loop (strict p) (state p) (buffer p) = Inr (None, st', buf')"
  shows "buf' = []
    \<and> (closed p \<longrightarrow> (\<forall>t. st' = Text t \<and> t \<noteq> [] \<longrightarrow>
          Parser_next p = Inr (Some (TextNode t), p\<lparr>state := Text [], buffer := []\<rparr>)))
    \<and> (closed p \<and> (\<forall>t. st' \<noteq> Text t) \<longrightarrow>
          Parser_next p = Inl (UnexpectedEndOfStream, p\<lparr>state := st', buffer := []\<rparr>))
    \<and> (\<not> closed p \<or> st' = Text [] \<longrightarrow>
          Parser_next p = Inr (None, p\<lparr>state := st', buffer := []\<rparr>))"
proof -
  from assms have buf': "buf' = []" by (rule next_loop_done)
  show ?thesis
    using assms unfolding buf' by (cases st') (simp_all add: Parser_next_def)
qed

theorem next_when_queue_empties_witness:
  "Parser_next \<lparr>state = Text [], buffer = map charCodeAt0 (js ''<roo''), closed = True, strict = False\<rparr>
     = Inl (UnexpectedEndOfStream, \<lparr>state = TagName (js ''roo''), buffer = [], closed = True, strict = False\<rparr>)
   \<and> Parser_next \<lparr>state = Text [], buffer = map charCodeAt0 (js ''ab''), closed = True, strict = False\<rparr>
     = Inr (Some (TextNode (js ''ab'')), \<lparr>state = Text [], buffer = [], closed = True, strict = False\<rparr>)
   \<and> Parser_next \<lparr>state = Text [], buffer = map charCodeAt0 (js ''<roo''), closed = False, strict = False\<rparr>
     = Inr (None, \<lparr>state = TagName (js ''roo''), buffer = [], closed = False, strict = False\<rparr>)"
proof -
  let ?roo = "map charCodeAt0 (js ''<roo'')"
  have roo: "next_loop False (Text []) ?roo = Inr (None, TagName (js ''roo''), [])"
    by (simp add: classifier_defs)
  have ab: "next_loop False (Text []) (map charCodeAt0 (js ''ab'')) = Inr (None, Text (js ''ab''), [])"
    by (simp add: classifier_defs)
  have "Parser_next \<lparr>state = Text [], buffer = ?roo, closed = True, strict = False\<rparr>
     = Inl (UnexpectedEndOfStream, \<lparr>state = TagName (js ''roo''), buffer = [], closed = True, strict = False\<rparr>)"
    using next_when_queue_empties [of "\<lparr>state = Text [], buffer = ?roo, closed = True, strict = False\<rparr>"
        "TagName (js ''roo'')" "[]"] roo
    by simp
  moreover have "Parser_next \<lparr>state = Text [], buffer = map charCodeAt0 (js ''ab''), closed = True, strict = False\<rparr>
     = Inr (Some (TextNode (js ''ab'')), \<lparr>state = Text [], buffer = [], closed = True, strict = False\<rparr>)"
    using next_when_queue_empties [of "\<lparr>state = Text [], buffer = map charCodeAt0 (js ''ab''), closed = True, strict = False\<rparr>"
        "Text (js ''ab'')" "[]"] ab
    by (simp add: js_def)
  moreover have "Parser_next \<lparr>state = Text [], buffer = ?roo, closed = False, strict = False\<rparr>
     = Inr (None, \<lparr>state = TagName (js ''roo''), buffer = [], closed = False, strict = False\<rparr>)"
    using next_when_queue_empties [of "\<lparr>state = Text [], buffer = ?roo, closed = False, strict = False\<rparr>"
        "TagName (js ''roo'')" "[]"] roo
    by simp
  ultimately show ?thesis by simp
qed

section \<open>Characters outside the basic plane\<close>

text \<open>
  C8. The specification: for every code point of the supplementary range 0x10000 to 0xEFFFF of
  isNameStartChar, writing the opening angle bracket followed by that character puts the
  character into one slot of the queue, which isNameStartChar accepts, so that a tag name
  begins.

  The code fills the queue with \<open>split('')\<close> and \<open>charCodeAt(0)\<close>, that is with UTF-16 code
  units: the character takes two slots, a high and a low surrogate, no slot ever holds a
  number from 0x10000 on, and the high surrogate is no name start character. The
  instance throws the invalid tag name starting character.
\<close>

lemma charCodeAt0_small: "n < 65536 \<Longrightarrow> charCodeAt0 (word_of_nat n) = n"
  by (simp add: charCodeAt0_def unat_of_nat)

lemma surrogate_not_name_start: "0xD800 \<le> n \<Longrightarrow> n \<le> 0xDFFF \<Longrightarrow> \<not> isNameStartChar n"
  by (simp add: isNameStartChar_def)

theorem supplementary_name_start_rejected:
  assumes "0x10000 \<le> cp" and "cp \<le> 0xEFFFF"
  shows "isNameStartChar cp
    \<and> Parser_write (new_Parser sm) (js ''<'' @ fromCodePoint cp) =
        Inr ((new_Parser sm)\<lparr>buffer :=
          [60, 0xD800 + (cp - 0x10000) div 0x400, 0xDC00 + (cp - 0x10000) mod 0x400]\<rparr>)
    \<and> \<not> isNameStartChar (0xD800 + (cp - 0x10000) div 0x400)
    \<and> parseString (js ''<'' @ fromCodePoint cp) sm =
        ([], Some (InvalidTagNameStart (0xD800 + (cp - 0x10000) div 0x400)))"
proof -
  define hi where "hi = 0xD800 + (cp - 0x10000) div 0x400"
  define lo where "lo = 0xDC00 + (cp - 0x10000) mod 0x400"
  from assms have hi: "0xD800 \<le> hi" "hi \<le> 0xDFFF" "hi < 65536" by (simp_all add: hi_def)
  have lo: "lo < 65536" by (simp add: lo_def)
  from assms have pair: "fromCodePoint cp = [word_of_nat hi, word_of_nat lo]"
    by (simp add: fromCodePoint_def hi_def lo_def)
  have h0: "map charCodeAt0 (js ''<'') = [60]" by (simp add: js_def charCodeAt0_def)
  have len1: "length (js ''<'') = 1" by (simp add: js_def)
  have len2: "length (fromCodePoint cp) = 2" by (simp add: pair)
  have h1: "map charCodeAt0 (fromCodePoint cp) = [hi, lo]"
    using hi(3) lo by (simp add: pair charCodeAt0_small)
  have no: "\<not> isNameStartChar hi" using hi(1,2) by (rule surrogate_not_name_start)
  have "isNameStartChar cp" using assms by (simp add: isNameStartChar_def)
  moreover have "Parser_write (new_Parser sm) (js ''<'' @ fromCodePoint cp) =
        Inr ((new_Parser sm)\<lparr>buffer := [60, hi, lo]\<rparr>)"
    by (simp add: Parser_write_def new_Parser_def h0 h1 len1 len2 max_arguments_def)
  moreover have "parseString (js ''<'' @ fromCodePoint cp) sm = ([], Some (InvalidTagNameStart hi))"
  proof -
    from no hi(1) have "transition sm (TagName []) hi = Inl (InvalidTagNameStart hi, TagName [])"
      by simp
    then show ?thesis by (simp add: parseString_eval h0 h1 len1 len2)
  qed
  ultimately show ?thesis using no unfolding hi_def lo_def by simp
qed

theorem supplementary_name_start_rejected_witness:
  "isNameStartChar 0x10000
   \<and> fromCodePoint 0x10000 = [0xD800, 0xDC00]
   \<and> parseString (js ''<'' @ fromCodePoint 0x10000) False = ([], Some (InvalidTagNameStart 0xD800))"
proof -
  have "fromCodePoint 0x10000 = [0xD800, 0xDC00]" by (simp add: fromCodePoint_def)
  with supplementary_name_start_rejected [of "0x10000" False] show ?thesis by simp
qed

section \<open>Delivery in chunks\<close>





















end
